theory Spec2Isabelle
  imports Complex_Main
begin

section \<open>Battle Sandbox: the simulation engine of js/main.js\<close>

text \<open>
  JavaScript numbers are IEEE-754 doubles. The model takes them as real numbers and
  writes out the rounding to the nearest double, \<open>fl\<close>, where the number of rounds of a
  loop or the outcome of a comparison depends on it: in the accumulator and the
  duration of a DoT record and in the velocity under friction. Hit points, positions
  and timers are computed exactly. Overflow to Infinity and the result of a division by
  zero are outside the model, and NaN occurs only as the value of a cooldown timer.
  Objects that the source mutates in place become records that the functions return
  updated. The sprite, the canvas and the status line of the page are left out: no
  function below reads them.
\<close>

subsection \<open>Utilities\<close>

text \<open>\<^verbatim>\<open>x || d\<close> on a number: the right operand replaces a falsy left one (zero).\<close>

definition num_or :: "real \<Rightarrow> real \<Rightarrow> real" where
  "num_or v d = (if v = 0 then d else v)"

text \<open>\<^verbatim>\<open>clamp = (x, a, b) => Math.max(a, Math.min(b, x))\<close>\<close>

definition clamp :: "real \<Rightarrow> real \<Rightarrow> real \<Rightarrow> real" where
  "clamp v a b = max a (min b v)"

text \<open>\<^verbatim>\<open>Math.hypot(x, y)\<close>\<close>

definition hypot :: "real \<Rightarrow> real \<Rightarrow> real" where
  "hypot a b = sqrt (a * a + b * b)"

record vec =
  vec_x :: real
  vec_y :: real

text \<open>\<^verbatim>\<open>dist = (a,b) => Math.hypot(a.x-b.x, a.y-b.y)\<close>\<close>

definition dist_vec :: "vec \<Rightarrow> vec \<Rightarrow> real" where
  "dist_vec a b = hypot (vec_x a - vec_x b) (vec_y a - vec_y b)"

subsection \<open>Rounding to the nearest double\<close>

text \<open>
  A double is an integer multiple of a power of two: for \<open>2^k \<le> |v| < 2^(k+1)\<close> the
  spacing is \<open>2^(k-52)\<close>, and never less than \<open>2^(-1074)\<close>, the smallest subnormal.
  \<open>ulp_exp\<close> is the exponent of that spacing.
\<close>

definition pow2 :: "int \<Rightarrow> real" where
  "pow2 e = 2 powr (of_int e)"

definition ulp_exp :: "real \<Rightarrow> int" where
  "ulp_exp v = max (\<lfloor>log 2 \<bar>v\<bar>\<rfloor> - 52) (- 1074)"

text \<open>The nearest integer, a tie going to the even one.\<close>

definition round_even :: "real \<Rightarrow> int" where
  "round_even v =
     (if v - of_int \<lfloor>v\<rfloor> < 1/2 then \<lfloor>v\<rfloor>
      else if 1/2 < v - of_int \<lfloor>v\<rfloor> then \<lfloor>v\<rfloor> + 1
      else if even \<lfloor>v\<rfloor> then \<lfloor>v\<rfloor> else \<lfloor>v\<rfloor> + 1)"

text \<open>
  The double that an arithmetic operation returns for the exact result \<open>v\<close>
  (round to nearest, ties to even; no overflow).
\<close>

definition fl :: "real \<Rightarrow> real" where
  "fl v = (if v = 0 then 0 else of_int (round_even (v / pow2 (ulp_exp v))) * pow2 (ulp_exp v))"

text \<open>
  \<^verbatim>\<open>Math.pow(b, e)\<close> for a positive base. The language leaves the last bit of the result
  to the implementation; the model takes the correctly rounded power. What is proved
  below uses that the result is a double next to the exact power, and its value at
  exponent 1, where the implementations return the base.
\<close>

definition Math_pow :: "real \<Rightarrow> real \<Rightarrow> real" where
  "Math_pow b e = fl (b powr e)"

subsection \<open>Effects, abilities, fighters\<close>

text \<open>
  The \<^verbatim>\<open>dtype\<close> tag of an effect. The engine compares it with the three strings
  below; the type holds exactly those.
\<close>

datatype dtype = Physical | Magical | Both

text \<open>The tagged objects built by \<^verbatim>\<open>Effects.*\<close>, fields in the order of the source.\<close>

datatype effect =
    Damage real dtype
  | Dot real real dtype
  | Immunity dtype real
  | TimeFreeze real
  | Knockback real

datatype atype = APhysical | AMagical | ABoth | AStatus

text \<open>
  An ability. Its \<^verbatim>\<open>onCast\<close> is a JavaScript closure; the model keeps a script's
  closure as a value of a type parameter and gives it a meaning through a function passed
  to the tick. \<open>None\<close> is the default \<^verbatim>\<open>onCast\<close> of \<^verbatim>\<open>Ability.make\<close>, which applies the
  ability's own effects to the target.
\<close>

record 'c ability =
  name :: string
  atype :: atype
  cooldown :: real
  arange :: real
  effects :: "effect list"
  onCast :: "'c option"

record stats =
  stats_hp :: real
  physicalStrength :: real
  physicalResistance :: real
  magicalPower :: real
  magicalResistance :: real
  moveSpeed :: real
  attackSpeed :: real
  canFly :: bool

record dot =
  dot_dps :: real
  dot_duration :: real
  dot_t :: real
  dot_dtype :: dtype

record immunities =
  physical :: real
  magical :: real
  both :: real

text \<open>
  The value of a cooldown timer as a number: a number of seconds, or NaN. The field
  \<open>cd\<close> of the state holds the own properties of the object \<^verbatim>\<open>cd\<close>, which
  \<^verbatim>\<open>makeFighter\<close> creates as \<^verbatim>\<open>{}\<close>.
\<close>

datatype timer = Secs real | NotANumber

record state =
  hp :: real
  pos :: vec
  vel :: vec
  facing :: int
  dots :: "dot list"
  immun :: immunities
  freeze :: real
  cd :: "string \<rightharpoonup> timer"

record 'c fighter =
  fname :: string
  base_stats :: stats
  fstate :: state
  abilities :: "'c ability list"

text \<open>\<^verbatim>\<open>makeFighter(name, spriteData, stats, abilities)\<close>\<close>

definition makeFighter :: "string \<Rightarrow> stats \<Rightarrow> 'c ability list \<Rightarrow> 'c fighter" where
  "makeFighter n st abl =
     \<lparr>fname = n, base_stats = st,
      fstate = \<lparr>hp = stats_hp st, pos = \<lparr>vec_x = 0, vec_y = 0\<rparr>, vel = \<lparr>vec_x = 0, vec_y = 0\<rparr>,
                facing = 1, dots = [],
                immun = \<lparr>physical = 0, magical = 0, both = 0\<rparr>,
                freeze = 0, cd = Map.empty\<rparr>,
      abilities = abl\<rparr>"

subsection \<open>Effect resolution\<close>

definition immunity_of :: "immunities \<Rightarrow> dtype \<Rightarrow> real" where
  "immunity_of im k = (case k of Physical \<Rightarrow> physical im | Magical \<Rightarrow> magical im | Both \<Rightarrow> both im)"

definition immunity_set :: "immunities \<Rightarrow> dtype \<Rightarrow> real \<Rightarrow> immunities" where
  "immunity_set im k v =
     (case k of Physical \<Rightarrow> im\<lparr>physical := v\<rparr> | Magical \<Rightarrow> im\<lparr>magical := v\<rparr> | Both \<Rightarrow> im\<lparr>both := v\<rparr>)"

text \<open>\<^verbatim>\<open>Arena.isImmune(target, dtype)\<close>\<close>

definition isImmune :: "'c fighter \<Rightarrow> dtype \<Rightarrow> bool" where
  "isImmune target k =
     (let im = immun (fstate target) in
      if k = Both then both im > 0 \<or> (physical im > 0 \<and> magical im > 0)
      else immunity_of im k > 0 \<or> both im > 0)"

text \<open>
  The amount a damage effect takes from hp: \<^verbatim>\<open>amt = e.amount||0\<close>, then the branch of
  the kind.
\<close>

definition mitigated :: "real \<Rightarrow> dtype \<Rightarrow> stats \<Rightarrow> real" where
  "mitigated amount k st =
     (let amt = num_or amount 0 in
      case k of
        Physical \<Rightarrow> amt * (100 / (100 + physicalResistance st))
      | Magical \<Rightarrow> amt * (100 / (100 + magicalResistance st))
      | Both \<Rightarrow> (amt / 2) * 100 / (100 + physicalResistance st)
               + (amt / 2) * 100 / (100 + magicalResistance st))"

text \<open>\<^verbatim>\<open>Arena.timeFreeze(target, duration)\<close>\<close>

definition timeFreeze :: "'c fighter \<Rightarrow> real \<Rightarrow> 'c fighter" where
  "timeFreeze target duration =
     target\<lparr>fstate := (fstate target)\<lparr>freeze := max (freeze (fstate target)) (num_or duration 1)\<rparr>\<rparr>"

text \<open>
  One round of the loop of \<^verbatim>\<open>Arena.applyEffects(effects, caster, target)\<close>. Of the
  caster only the position is read, and no effect writes a position, so the caster is
  passed as it is at the call even when caster and target are the same fighter.
\<close>

fun applyEffect :: "effect \<Rightarrow> 'c fighter \<Rightarrow> 'c fighter \<Rightarrow> 'c fighter" where
  "applyEffect (Damage amount k) caster target =
     (if isImmune target k then target
      else target\<lparr>fstate := (fstate target)\<lparr>hp := hp (fstate target) - mitigated amount k (base_stats target)\<rparr>\<rparr>)"
| "applyEffect (Dot dps duration k) caster target =
     (if isImmune target k then target
      else target\<lparr>fstate := (fstate target)\<lparr>dots := dots (fstate target) @
             [\<lparr>dot_dps = num_or dps 0, dot_duration = num_or duration 0, dot_t = 0, dot_dtype = k\<rparr>]\<rparr>\<rparr>)"
| "applyEffect (Immunity k duration) caster target =
     target\<lparr>fstate := (fstate target)\<lparr>immun :=
        immunity_set (immun (fstate target)) k
          (max (num_or (immunity_of (immun (fstate target)) k) 0) (num_or duration 0))\<rparr>\<rparr>"
| "applyEffect (TimeFreeze duration) caster target = timeFreeze target (num_or duration 1)"
| "applyEffect (Knockback force) caster target =
     (let dx = sgn (vec_x (pos (fstate target)) - vec_x (pos (fstate caster)));
          dy = sgn (vec_y (pos (fstate target)) - vec_y (pos (fstate caster)));
          v = vel (fstate target)
      in target\<lparr>fstate := (fstate target)\<lparr>vel :=
            \<lparr>vec_x = vec_x v + dx * num_or force 80 / 2,
             vec_y = vec_y v + dy * num_or force 80 / 2\<rparr>\<rparr>\<rparr>)"

fun applyEffects :: "effect list \<Rightarrow> 'c fighter \<Rightarrow> 'c fighter \<Rightarrow> 'c fighter" where
  "applyEffects [] caster target = target"
| "applyEffects (e # es) caster target = applyEffects es caster (applyEffect e caster target)"

subsection \<open>Status decay\<close>

text \<open>
  The inner loop of the DoT decay,
  \<^verbatim>\<open>while(d.t >= 1){ d.t -= 1; if(!this.isImmune(f, d.dtype)) f.state.hp -= d.dps; d.duration -= 1; }\<close>,
  on the record and the fighter's hp. The immunity timers do not change inside the loop,
  so the test's result is passed in. The two subtractions are rounded; from \<open>2^54\<close> on
  \<^verbatim>\<open>d.t - 1\<close> rounds back to \<^verbatim>\<open>d.t\<close> and the loop does not end: \<open>None\<close> is a loop
  that never returns.
\<close>

partial_function (option) dot_while :: "bool \<Rightarrow> dot \<Rightarrow> real \<Rightarrow> (dot \<times> real) option" where
  "dot_while immune d h =
     (if dot_t d \<ge> 1
      then dot_while immune (d\<lparr>dot_t := fl (dot_t d - 1), dot_duration := fl (dot_duration d - 1)\<rparr>)
             (if \<not> immune then h - dot_dps d else h)
      else Some (d, h))"

text \<open>
  The loop over the records, \<^verbatim>\<open>for(let i=f.state.dots.length-1;i>=0;i--)\<close>: the last
  record is visited first; a record whose duration is used up is spliced out, any other
  one accumulates \<^verbatim>\<open>dt\<close>, the sum rounded, and pulses.
\<close>

fun decay_dots :: "real \<Rightarrow> (dtype \<Rightarrow> bool) \<Rightarrow> dot list \<Rightarrow> real \<Rightarrow> (dot list \<times> real) option" where
  "decay_dots dt immune [] h = Some ([], h)"
| "decay_dots dt immune (d # ds) h =
     (case decay_dots dt immune ds h of
        None \<Rightarrow> None
      | Some (ds', h') \<Rightarrow>
          if dot_duration d \<le> 0 then Some (ds', h')
          else (case dot_while (immune (dot_dtype d)) (d\<lparr>dot_t := fl (num_or (dot_t d) 0 + dt)\<rparr>) h' of
                  None \<Rightarrow> None
                | Some (d', h'') \<Rightarrow> Some (d' # ds', h'')))"

text \<open>\<^verbatim>\<open>for(const k of ["physical","magical","both"]){ if(f.state.immunities[k]>0) f.state.immunities[k] -= dt; }\<close>\<close>

definition decay_immunities :: "real \<Rightarrow> immunities \<Rightarrow> immunities" where
  "decay_immunities dt im =
     \<lparr>physical = (if physical im > 0 then physical im - dt else physical im),
      magical = (if magical im > 0 then magical im - dt else magical im),
      both = (if both im > 0 then both im - dt else both im)\<rparr>"

text \<open>
  The object \<^verbatim>\<open>cd\<close> is a plain object, so it inherits the properties of
  \<^verbatim>\<open>Object.prototype\<close>; these are their names.
\<close>

definition proto_names :: "string list" where
  "proto_names =
     [''constructor'', ''__defineGetter__'', ''__defineSetter__'', ''hasOwnProperty'',
      ''__lookupGetter__'', ''__lookupSetter__'', ''isPrototypeOf'', ''propertyIsEnumerable'',
      ''toString'', ''valueOf'', ''__proto__'', ''toLocaleString'']"

text \<open>\<^verbatim>\<open>a.name in f.state.cd\<close>: an own or an inherited property.\<close>

definition cd_in :: "(string \<rightharpoonup> timer) \<Rightarrow> string \<Rightarrow> bool" where
  "cd_in m n = (m n \<noteq> None \<or> n \<in> set proto_names)"

text \<open>
  \<^verbatim>\<open>cd[name]\<close> as a number: the own property; without one the read gives
  \<^verbatim>\<open>undefined\<close> or an inherited function or object, and each of them is NaN as a
  number.
\<close>

definition cd_read :: "(string \<rightharpoonup> timer) \<Rightarrow> string \<Rightarrow> timer" where
  "cd_read m n = (case m n of None \<Rightarrow> NotANumber | Some c \<Rightarrow> c)"

text \<open>
  \<^verbatim>\<open>cd[name] = v\<close> for a number \<open>v\<close>: the own property is created or overwritten,
  except for the name \<^verbatim>\<open>__proto__\<close>, whose inherited setter ignores a number.
\<close>

definition cd_write :: "(string \<rightharpoonup> timer) \<Rightarrow> string \<Rightarrow> timer \<Rightarrow> (string \<rightharpoonup> timer)" where
  "cd_write m n c = (if n = ''__proto__'' \<and> m n = None then m else m(n \<mapsto> c))"

text \<open>\<^verbatim>\<open>Math.max(0, c - dt)\<close>, which is NaN for a NaN.\<close>

definition timer_decay :: "real \<Rightarrow> timer \<Rightarrow> timer" where
  "timer_decay dt c = (case c of Secs v \<Rightarrow> Secs (max 0 (v - dt)) | NotANumber \<Rightarrow> NotANumber)"

text \<open>
  The cooldown loop,
  \<^verbatim>\<open>if(!(a.name in f.state.cd)) f.state.cd[a.name]=0; const cd = Math.max(0, f.state.cd[a.name]-dt); f.state.cd[a.name]=cd;\<close>
\<close>

fun decay_cd :: "real \<Rightarrow> 'c ability list \<Rightarrow> (string \<rightharpoonup> timer) \<Rightarrow> (string \<rightharpoonup> timer)" where
  "decay_cd dt [] m = m"
| "decay_cd dt (a # as) m =
     (let m1 = (if cd_in m (name a) then m else cd_write m (name a) (Secs 0))
      in decay_cd dt as (cd_write m1 (name a) (timer_decay dt (cd_read m1 (name a)))))"

text \<open>The first loop of \<^verbatim>\<open>Arena.tick\<close> for one fighter: dots, immunities, cooldowns.\<close>

definition decay_fighter :: "real \<Rightarrow> 'c fighter \<Rightarrow> 'c fighter option" where
  "decay_fighter dt f =
     (case decay_dots dt (isImmune f) (dots (fstate f)) (hp (fstate f)) of
        None \<Rightarrow> None
      | Some (ds, h) \<Rightarrow>
          Some (f\<lparr>fstate := (fstate f)\<lparr>hp := h, dots := ds,
              immun := decay_immunities dt (immun (fstate f)),
              cd := decay_cd dt (abilities f) (cd (fstate f))\<rparr>\<rparr>))"

text \<open>\<^verbatim>\<open>for(const f of this.fighters)\<close> of the first loop.\<close>

fun decay_all :: "real \<Rightarrow> 'c fighter list \<Rightarrow> 'c fighter list option" where
  "decay_all dt [] = Some []"
| "decay_all dt (f # fs) =
     (case decay_fighter dt f of
        None \<Rightarrow> None
      | Some f' \<Rightarrow> (case decay_all dt fs of None \<Rightarrow> None | Some fs' \<Rightarrow> Some (f' # fs')))"

subsection \<open>The world and its projectiles\<close>

text \<open>
  A projectile; shape and tint are only drawn. \<^verbatim>\<open>onHit\<close> is a closure of the script
  (\<open>None\<close> is the default \<^verbatim>\<open>()=>{}\<close>).
\<close>

record 'h projectile =
  p_pos :: vec
  p_vel :: vec
  ttl :: real
  onHit :: "'h option"
  alive :: bool

record bounds =
  bounds_x :: real
  bounds_y :: real
  bounds_w :: real
  bounds_h :: real

record ('c, 'h) world =
  fighters :: "'c fighter list"
  projectiles :: "'h projectile list"
  bounds :: bounds

text \<open>The argument of \<^verbatim>\<open>spawnProjectile\<close>: \<^verbatim>\<open>{speed,maxTime,from,to,shape,tint,onHit}\<close>.\<close>

record 'h spawn =
  sp_speed :: real
  sp_maxTime :: real
  sp_from :: vec
  sp_to :: vec
  sp_onHit :: "'h option"

text \<open>\<^verbatim>\<open>const L = Math.hypot(dir.x, dir.y) || 1\<close>\<close>

definition spawn_L :: "'h spawn \<Rightarrow> real" where
  "spawn_L p = num_or (hypot (vec_x (sp_to p) - vec_x (sp_from p)) (vec_y (sp_to p) - vec_y (sp_from p))) 1"

definition spawned :: "'h spawn \<Rightarrow> 'h projectile" where
  "spawned p =
     (let dx = (vec_x (sp_to p) - vec_x (sp_from p)) / spawn_L p;
          dy = (vec_y (sp_to p) - vec_y (sp_from p)) / spawn_L p
      in \<lparr>p_pos = \<lparr>vec_x = vec_x (sp_from p), vec_y = vec_y (sp_from p)\<rparr>,
          p_vel = \<lparr>vec_x = dx * num_or (sp_speed p) 220, vec_y = dy * num_or (sp_speed p) 220\<rparr>,
          ttl = num_or (sp_maxTime p) 2,
          onHit = sp_onHit p,
          alive = True\<rparr>)"

text \<open>\<^verbatim>\<open>Arena.spawnProjectile(p)\<close>\<close>

definition spawnProjectile :: "'h spawn \<Rightarrow> ('c, 'h) world \<Rightarrow> ('c, 'h) world" where
  "spawnProjectile p w = w\<lparr>projectiles := projectiles w @ [spawned p]\<rparr>"

text \<open>
  The world's fighters and projectiles are addressed by their index in the arrays, which
  stands for the object reference of the source.
\<close>

definition set_fighter :: "nat \<Rightarrow> 'c fighter \<Rightarrow> ('c, 'h) world \<Rightarrow> ('c, 'h) world" where
  "set_fighter i f w = w\<lparr>fighters := (fighters w)[i := f]\<rparr>"

definition set_projectile :: "nat \<Rightarrow> 'h projectile \<Rightarrow> ('c, 'h) world \<Rightarrow> ('c, 'h) world" where
  "set_projectile i p w = w\<lparr>projectiles := (projectiles w)[i := p]\<rparr>"

text \<open>\<^verbatim>\<open>world.applyEffects(effects, caster, target)\<close> and \<^verbatim>\<open>world.timeFreeze(target, duration)\<close> on the world.\<close>

definition world_applyEffects :: "effect list \<Rightarrow> nat \<Rightarrow> nat \<Rightarrow> ('c, 'h) world \<Rightarrow> ('c, 'h) world" where
  "world_applyEffects es c t w = set_fighter t (applyEffects es (fighters w ! c) (fighters w ! t)) w"

definition world_timeFreeze :: "nat \<Rightarrow> real \<Rightarrow> ('c, 'h) world \<Rightarrow> ('c, 'h) world" where
  "world_timeFreeze t duration w = set_fighter t (timeFreeze (fighters w ! t) duration) w"

subsection \<open>Scripted callbacks\<close>

text \<open>
  A callback either returns, having changed the world, or throws. Its meaning is a
  function from the closure and its arguments to that outcome; the tick takes one such
  function for \<^verbatim>\<open>onCast\<close> (closure, the ability as \<^verbatim>\<open>this\<close>, caster, opponent) and one for
  \<^verbatim>\<open>onHit\<close> (closure, the fighter hit).
\<close>

datatype exn = Thrown string

type_synonym ('c, 'h) cast_sem =
  "'c \<Rightarrow> 'c ability \<Rightarrow> nat \<Rightarrow> nat \<Rightarrow> ('c, 'h) world \<Rightarrow> exn + ('c, 'h) world"

type_synonym ('c, 'h) hit_sem =
  "'h \<Rightarrow> nat \<Rightarrow> ('c, 'h) world \<Rightarrow> exn + ('c, 'h) world"

text \<open>\<^verbatim>\<open>a.onCast.call(a, me, op, this)\<close>\<close>

definition invoke_onCast ::
  "('c, 'h) cast_sem \<Rightarrow> 'c ability \<Rightarrow> nat \<Rightarrow> nat \<Rightarrow> ('c, 'h) world \<Rightarrow> exn + ('c, 'h) world" where
  "invoke_onCast cast a m opp w =
     (case onCast a of
        None \<Rightarrow> Inr (world_applyEffects (effects a) m opp w)
      | Some c \<Rightarrow> cast c a m opp w)"

text \<open>\<^verbatim>\<open>p.onHit && p.onHit(f)\<close>\<close>

definition invoke_onHit ::
  "('c, 'h) hit_sem \<Rightarrow> 'h option \<Rightarrow> nat \<Rightarrow> ('c, 'h) world \<Rightarrow> exn + ('c, 'h) world" where
  "invoke_onHit hit cb j w = (case cb of None \<Rightarrow> Inr w | Some h \<Rightarrow> hit h j w)"

subsection \<open>The projectile pass of the tick\<close>

text \<open>
  The collision loop \<^verbatim>\<open>for(const f of this.fighters)\<close> of projectile \<open>i\<close> over the
  fighters \<open>js\<close> still to visit: a fighter closer than 18 marks the projectile dead and
  gets the callback; the loop has no \<^verbatim>\<open>break\<close>.
\<close>

fun collide :: "('c, 'h) hit_sem \<Rightarrow> nat \<Rightarrow> nat list \<Rightarrow> ('c, 'h) world \<Rightarrow> exn + ('c, 'h) world" where
  "collide hit i [] w = Inr w"
| "collide hit i (j # js) w =
     (let p = projectiles w ! i in
      if dist_vec (p_pos p) (pos (fstate (fighters w ! j))) < 18
      then (case invoke_onHit hit (onHit p) j (set_projectile i (p\<lparr>alive := False\<rparr>) w) of
              Inl e \<Rightarrow> Inl e
            | Inr w' \<Rightarrow> collide hit i js w')
      else collide hit i js w)"

text \<open>The body of \<^verbatim>\<open>for(const p of this.projectiles)\<close> for the projectile at index \<open>i\<close>.\<close>

definition proj_step :: "('c, 'h) hit_sem \<Rightarrow> real \<Rightarrow> nat \<Rightarrow> ('c, 'h) world \<Rightarrow> exn + ('c, 'h) world" where
  "proj_step hit dt i w =
     (let p = projectiles w ! i in
      if \<not> alive p then Inr w
      else if ttl p - dt \<le> 0 then Inr (set_projectile i (p\<lparr>ttl := ttl p - dt, alive := False\<rparr>) w)
      else collide hit i [0..<length (fighters w)]
             (set_projectile i
                (p\<lparr>ttl := ttl p - dt,
                   p_pos := \<lparr>vec_x = vec_x (p_pos p) + vec_x (p_vel p) * dt,
                             vec_y = vec_y (p_pos p) + vec_y (p_vel p) * dt\<rparr>\<rparr>) w))"

text \<open>
  The loop over the projectile array. A JavaScript array iterator reads the length at
  every step, so a projectile that a callback pushes during the pass is visited in the
  same pass, and the loop need not end: \<open>None\<close> is a pass that never returns.
\<close>

partial_function (option) proj_loop ::
  "('c, 'h) hit_sem \<Rightarrow> real \<Rightarrow> nat \<Rightarrow> ('c, 'h) world \<Rightarrow> (exn + ('c, 'h) world) option" where
  "proj_loop hit dt i w =
     (if i < length (projectiles w)
      then (case proj_step hit dt i w of
              Inl e \<Rightarrow> Some (Inl e)
            | Inr w' \<Rightarrow> proj_loop hit dt (Suc i) w')
      else Some (Inr w))"

text \<open>\<^verbatim>\<open>this.projectiles = this.projectiles.filter(p=>p.alive)\<close>\<close>

definition cleanup :: "('c, 'h) world \<Rightarrow> ('c, 'h) world" where
  "cleanup w = w\<lparr>projectiles := filter alive (projectiles w)\<rparr>"

definition proj_pass :: "('c, 'h) hit_sem \<Rightarrow> real \<Rightarrow> ('c, 'h) world \<Rightarrow> (exn + ('c, 'h) world) option" where
  "proj_pass hit dt w =
     (case proj_loop hit dt 0 w of
        None \<Rightarrow> None
      | Some (Inl e) \<Rightarrow> Some (Inl e)
      | Some (Inr w') \<Rightarrow> Some (Inr (cleanup w')))"

subsection \<open>AI, movement and casting\<close>

text \<open>
  \<^verbatim>\<open>me.state.vel.x *= Math.pow(0.2, dt); me.state.vel.y *= Math.pow(0.2, dt);\<close>
  The literal \<^verbatim>\<open>0.2\<close> is the double next to 1/5, and each product is rounded.
\<close>

definition decay_vel :: "real \<Rightarrow> vec \<Rightarrow> vec" where
  "decay_vel dt v =
     \<lparr>vec_x = fl (vec_x v * Math_pow (fl (1/5)) dt), vec_y = fl (vec_y v * Math_pow (fl (1/5)) dt)\<rparr>"

text \<open>The position after the directed move (kite away or chase), before the velocity is applied.\<close>

definition directed_pos :: "real \<Rightarrow> 'c fighter \<Rightarrow> vec \<Rightarrow> vec" where
  "directed_pos dt me op_pos =
     (let maxRange = foldl (\<lambda>m a. max m (num_or (arange a) 0)) 0 (abilities me);
          ranged = (maxRange \<ge> 40);
          desired = (if ranged then maxRange * 0.8 else 20);
          d = dist_vec (pos (fstate me)) op_pos;
          dx = vec_x op_pos - vec_x (pos (fstate me));
          dy = vec_y op_pos - vec_y (pos (fstate me));
          L = num_or (hypot dx dy) 1;
          speed = moveSpeed (base_stats me);
          p = pos (fstate me)
      in if ranged \<and> d < desired
         then \<lparr>vec_x = vec_x p - dx / L * speed * dt, vec_y = vec_y p - dy / L * speed * dt\<rparr>
         else if \<not> ranged \<and> d > desired
         then \<lparr>vec_x = vec_x p + dx / L * speed * dt, vec_y = vec_y p + dy / L * speed * dt\<rparr>
         else p)"

text \<open>
  The movement of an unfrozen fighter in one tick: directed move, velocity applied to the
  position, velocity decayed, position clamped into the bounds, facing set.
\<close>

definition move_fighter :: "real \<Rightarrow> bounds \<Rightarrow> 'c fighter \<Rightarrow> vec \<Rightarrow> 'c fighter" where
  "move_fighter dt b me op_pos =
     (let p1 = directed_pos dt me op_pos;
          v = vel (fstate me);
          p2 = \<lparr>vec_x = vec_x p1 + vec_x v * dt, vec_y = vec_y p1 + vec_y v * dt\<rparr>;
          p3 = \<lparr>vec_x = clamp (vec_x p2) (bounds_x b) (bounds_x b + bounds_w b),
                vec_y = clamp (vec_y p2) (bounds_y b) (bounds_y b + bounds_h b)\<rparr>
      in me\<lparr>fstate := (fstate me)\<lparr>pos := p3, vel := decay_vel dt v,
               facing := (if vec_x p3 < vec_x op_pos then 1 else - 1)\<rparr>\<rparr>)"

text \<open>\<^verbatim>\<open>me.state.cd[a.name]>0\<close>: a NaN compares false.\<close>

definition on_cooldown :: "(string \<rightharpoonup> timer) \<Rightarrow> string \<Rightarrow> bool" where
  "on_cooldown m n = (case cd_read m n of Secs c \<Rightarrow> c > 0 | NotANumber \<Rightarrow> False)"

text \<open>\<^verbatim>\<open>Math.max(0.1, (a.cooldown||1) / Math.max(0.1, me.base.stats.attackSpeed))\<close>\<close>

definition cast_cooldown :: "'c ability \<Rightarrow> 'c fighter \<Rightarrow> real" where
  "cast_cooldown a me = max 0.1 (num_or (cooldown a) 1 / max 0.1 (attackSpeed (base_stats me)))"

text \<open>\<^verbatim>\<open>d <= Math.max(20, a.range||0)\<close>\<close>

definition inRange :: "real \<Rightarrow> 'c ability \<Rightarrow> bool" where
  "inRange d a = (d \<le> max 20 (num_or (arange a) 0))"

text \<open>
  The cast loop \<^verbatim>\<open>for(const a of me.abilities)\<close> of fighter \<open>m\<close> against \<open>opp\<close>, with
  the distance \<open>d\<close> measured before the move. The loop ends at the first cast
  (\<^verbatim>\<open>break; // one ability at a time\<close>).
\<close>

fun cast_loop ::
  "('c, 'h) cast_sem \<Rightarrow> real \<Rightarrow> nat \<Rightarrow> nat \<Rightarrow> 'c ability list \<Rightarrow> ('c, 'h) world \<Rightarrow> exn + ('c, 'h) world" where
  "cast_loop cast d m opp [] w = Inr w"
| "cast_loop cast d m opp (a # as) w =
     (let me = fighters w ! m in
      if on_cooldown (cd (fstate me)) (name a) then cast_loop cast d m opp as w
      else if inRange d a
      then invoke_onCast cast a m opp
             (set_fighter m (me\<lparr>fstate := (fstate me)\<lparr>cd :=
                 cd_write (cd (fstate me)) (name a) (Secs (cast_cooldown a me))\<rparr>\<rparr>) w)
      else cast_loop cast d m opp as w)"

text \<open>The body of \<^verbatim>\<open>for(const [me, op] of pairs)\<close>.\<close>

definition ai_turn :: "('c, 'h) cast_sem \<Rightarrow> real \<Rightarrow> nat \<Rightarrow> nat \<Rightarrow> ('c, 'h) world \<Rightarrow> exn + ('c, 'h) world" where
  "ai_turn cast dt m opp w =
     (let me = fighters w ! m; op_pos = pos (fstate (fighters w ! opp)) in
      if freeze (fstate me) > 0
      then Inr (set_fighter m (me\<lparr>fstate := (fstate me)\<lparr>freeze := freeze (fstate me) - dt\<rparr>\<rparr>) w)
      else cast_loop cast (dist_vec (pos (fstate me)) op_pos) m opp (abilities me)
             (set_fighter m (move_fighter dt (bounds w) me op_pos) w))"

text \<open>\<^verbatim>\<open>const [A,B] = this.fighters; if(A && B){ const pairs = [[A,B],[B,A]]; ... }\<close>\<close>

definition ai_phase :: "('c, 'h) cast_sem \<Rightarrow> real \<Rightarrow> ('c, 'h) world \<Rightarrow> exn + ('c, 'h) world" where
  "ai_phase cast dt w =
     (case fighters w of
        A # B # rest \<Rightarrow>
          (case ai_turn cast dt 0 1 w of
             Inl e \<Rightarrow> Inl e
           | Inr w' \<Rightarrow> ai_turn cast dt 1 0 w')
      | _ \<Rightarrow> Inr w)"

text \<open>\<^verbatim>\<open>for(const f of this.fighters){ if(f.state.hp <= 0) f.state.hp = 0; }\<close>\<close>

definition floor_hp :: "'c fighter \<Rightarrow> 'c fighter" where
  "floor_hp f = (if hp (fstate f) \<le> 0 then f\<lparr>fstate := (fstate f)\<lparr>hp := 0\<rparr>\<rparr> else f)"

definition check_deaths :: "('c, 'h) world \<Rightarrow> ('c, 'h) world" where
  "check_deaths w = w\<lparr>fighters := map floor_hp (fighters w)\<rparr>"

text \<open>
  \<^verbatim>\<open>Arena.tick(dt)\<close>: status decay of every fighter, projectile pass, AI and casting,
  hp floor. An exception of a callback leaves the tick at once; \<open>None\<close> is a tick that
  never returns.
\<close>

definition tick ::
  "('c, 'h) cast_sem \<Rightarrow> ('c, 'h) hit_sem \<Rightarrow> real \<Rightarrow> ('c, 'h) world \<Rightarrow> (exn + ('c, 'h) world) option" where
  "tick cast hit dt w =
     (case decay_all dt (fighters w) of
        None \<Rightarrow> None
      | Some fs \<Rightarrow>
          (case proj_pass hit dt (w\<lparr>fighters := fs\<rparr>) of
             None \<Rightarrow> None
           | Some (Inl e) \<Rightarrow> Some (Inl e)
           | Some (Inr w2) \<Rightarrow>
               (case ai_phase cast dt w2 of
                  Inl e \<Rightarrow> Some (Inl e)
                | Inr w3 \<Rightarrow> Some (Inr (check_deaths w3)))))"

subsection \<open>Ability factory and compiler\<close>

text \<open>
  The values a script can put into the validated fields of an ability: a number, a
  string, or anything else. A field that is \<open>None\<close> is absent from the object, so
  \<^verbatim>\<open>Object.assign\<close> keeps the default.
\<close>

datatype jsval = Num real | Str string | Other

record 'c ability_spec =
  spec_name :: "string option"
  spec_type :: "jsval option"
  spec_cooldown :: "jsval option"
  spec_range :: "jsval option"
  spec_effects :: "effect list option"
  spec_onCast :: "'c option"

definition atype_of :: "jsval \<Rightarrow> atype option" where
  "atype_of v =
     (if v = Str ''physical'' then Some APhysical
      else if v = Str ''magical'' then Some AMagical
      else if v = Str ''both'' then Some ABoth
      else if v = Str ''status'' then Some AStatus
      else None)"

text \<open>
  \<^verbatim>\<open>Ability.make(spec)\<close>: the defaults, overridden by the fields of \<^verbatim>\<open>spec || {}\<close>, then
  the three checks in the order of the source.
\<close>

definition Ability_make :: "'c ability_spec option \<Rightarrow> exn + 'c ability" where
  "Ability_make spec =
     (let n = (case spec of None \<Rightarrow> ''Ability'' | Some s \<Rightarrow> (case spec_name s of None \<Rightarrow> ''Ability'' | Some v \<Rightarrow> v));
          ty = (case spec of None \<Rightarrow> Str ''status'' | Some s \<Rightarrow> (case spec_type s of None \<Rightarrow> Str ''status'' | Some v \<Rightarrow> v));
          c = (case spec of None \<Rightarrow> Num 2 | Some s \<Rightarrow> (case spec_cooldown s of None \<Rightarrow> Num 2 | Some v \<Rightarrow> v));
          r = (case spec of None \<Rightarrow> Num 20 | Some s \<Rightarrow> (case spec_range s of None \<Rightarrow> Num 20 | Some v \<Rightarrow> v));
          es = (case spec of None \<Rightarrow> [] | Some s \<Rightarrow> (case spec_effects s of None \<Rightarrow> [] | Some v \<Rightarrow> v));
          oc = (case spec of None \<Rightarrow> None | Some s \<Rightarrow> spec_onCast s)
      in case atype_of ty of
           None \<Rightarrow> Inl (Thrown ''Invalid ability.type'')
         | Some t \<Rightarrow>
             (case c of
                Num cv \<Rightarrow>
                  if cv \<le> 0 then Inl (Thrown ''cooldown must be > 0'')
                  else (case r of
                          Num rv \<Rightarrow>
                            if rv < 0 then Inl (Thrown ''range must be >= 0'')
                            else Inr \<lparr>name = n, atype = t, cooldown = cv, arange = rv, effects = es, onCast = oc\<rparr>
                        | _ \<Rightarrow> Inl (Thrown ''range must be >= 0''))
              | _ \<Rightarrow> Inl (Thrown ''cooldown must be > 0'')))"

text \<open>Calling \<^verbatim>\<open>Ability.make\<close> on every element in order; the first throw ends the loop.\<close>

fun make_all :: "'c ability_spec option list \<Rightarrow> exn + 'c ability list" where
  "make_all [] = Inr []"
| "make_all (s # ss) =
     (case Ability_make s of
        Inl e \<Rightarrow> Inl e
      | Inr a \<Rightarrow> (case make_all ss of Inl e \<Rightarrow> Inl e | Inr as \<Rightarrow> Inr (a # as)))"

text \<open>What the compiled script returns: an array of ability objects, or something else.\<close>

datatype 'c script_result = NotArray | Array "'c ability_spec option list"

datatype status = SyntaxError string | RuntimeError string | Loaded nat

text \<open>
  \<^verbatim>\<open>compileAbilities(src, label, statusEl)\<close>. \<open>parse\<close> stands for \<^verbatim>\<open>new Function(...)\<close> on
  the script text (\<open>Inl\<close> when the constructor throws), \<open>invoke\<close> for the call of the
  function it built. The result is the text of the status line and the value returned,
  \<open>None\<close> for \<^verbatim>\<open>null\<close>.
\<close>

definition compileAbilities ::
  "('src \<Rightarrow> exn + 'fn) \<Rightarrow> ('fn \<Rightarrow> exn + 'c script_result) \<Rightarrow> 'src \<Rightarrow> status \<times> 'c ability list option" where
  "compileAbilities parse invoke src =
     (case parse src of
        Inl (Thrown msg) \<Rightarrow> (SyntaxError msg, None)
      | Inr fn \<Rightarrow>
          (case invoke fn of
             Inl (Thrown msg) \<Rightarrow> (RuntimeError msg, None)
           | Inr NotArray \<Rightarrow> (RuntimeError ''Ability script must return an array'', None)
           | Inr (Array result) \<Rightarrow>
               (case make_all result of
                  Inl (Thrown msg) \<Rightarrow> (RuntimeError msg, None)
                | Inr checked \<Rightarrow>
                    (case make_all result of
                       Inl (Thrown msg) \<Rightarrow> (RuntimeError msg, None)
                     | Inr made \<Rightarrow> (Loaded (length result), Some made)))))"

text \<open>
  The click handler of a Validate button,
  \<^verbatim>\<open>const c = compileAbilities(...); if(c) compiledA = c;\<close>, on the loaded set (an array,
  even an empty one, is truthy).
\<close>

definition validate_click ::
  "('src \<Rightarrow> exn + 'fn) \<Rightarrow> ('fn \<Rightarrow> exn + 'c script_result) \<Rightarrow> 'src \<Rightarrow> 'c ability list \<Rightarrow> 'c ability list" where
  "validate_click parse invoke src compiled =
     (case snd (compileAbilities parse invoke src) of None \<Rightarrow> compiled | Some c \<Rightarrow> c)"

subsection \<open>Running the status decay over several ticks\<close>


fun hp_drops :: "real list \<Rightarrow> 'c fighter \<Rightarrow> real list" where
  "hp_drops [] f = []"
| "hp_drops (dt # dts) f =
     (case decay_fighter dt f of
        None \<Rightarrow> []
      | Some g \<Rightarrow> (hp (fstate f) - hp (fstate g)) # hp_drops dts g)"




subsection \<open>Velocity over several ticks\<close>

text \<open>The length of a velocity, and the friction step of the movement over a sequence of tick lengths.\<close>

definition magnitude :: "vec \<Rightarrow> real" where
  "magnitude v = hypot (vec_x v) (vec_y v)"

definition run_vel :: "real list \<Rightarrow> vec \<Rightarrow> vec" where
  "run_vel dts v = foldl (\<lambda>u dt. decay_vel dt u) v dts"

subsection \<open>Example abilities, callbacks and worlds\<close>

text \<open>
  The melee ability of the spec's end-to-end example (the first ability of the template,
  with the default \<^verbatim>\<open>onCast\<close>), and a ranged ability.
\<close>

definition slash :: "'c ability" where
  "slash = \<lparr>name = ''Slash'', atype = APhysical, cooldown = 12/10, arange = 20,
            effects = [Damage 14 Physical], onCast = None\<rparr>"

definition firebolt :: "'c ability" where
  "firebolt = \<lparr>name = ''Firebolt'', atype = AMagical, cooldown = 2, arange = 200,
               effects = [Damage 10 Magical], onCast = None\<rparr>"

text \<open>A world of two fighters without projectiles, in the arena of a 960 by 540 canvas.\<close>

definition duel :: "'c fighter \<Rightarrow> 'c fighter \<Rightarrow> ('c, 'h) world" where
  "duel A B = \<lparr>fighters = [A, B], projectiles = [],
               bounds = \<lparr>bounds_x = 40, bounds_y = 40, bounds_w = 880, bounds_h = 460\<rparr>\<rparr>"

text \<open>
  A callback meaning for scripts without closures of their own, and the \<^verbatim>\<open>onHit\<close> of
  the template, \<^verbatim>\<open>(hit) => world.applyEffects(this.effects, self, hit)\<close>, the closure
  holding the effects and the caster.
\<close>

definition no_cast :: "(unit, 'h) cast_sem" where
  "no_cast c a m opp w = Inr w"

definition hit_applies :: "('c, effect list \<times> nat) hit_sem" where
  "hit_applies h j w = Inr (world_applyEffects (fst h) (snd h) j w)"

subsection \<open>Example scripts\<close>

text \<open>An ability object read back as the argument of \<^verbatim>\<open>Ability.make\<close>: every field is present.\<close>

definition spec_of :: "'c ability \<Rightarrow> 'c ability_spec" where
  "spec_of a =
     \<lparr>spec_name = Some (name a),
      spec_type = Some (Str (case atype a of APhysical \<Rightarrow> ''physical'' | AMagical \<Rightarrow> ''magical''
                                | ABoth \<Rightarrow> ''both'' | AStatus \<Rightarrow> ''status'')),
      spec_cooldown = Some (Num (cooldown a)),
      spec_range = Some (Num (arange a)),
      spec_effects = Some (effects a),
      spec_onCast = onCast a\<rparr>"

text \<open>
  A script that compiles and returns two ability objects, the second one with a
  cooldown of 0, which \<^verbatim>\<open>Ability.make\<close> rejects.
\<close>

definition mixed_batch :: "unit ability_spec option list" where
  "mixed_batch = [Some (spec_of firebolt), Some ((spec_of slash)\<lparr>spec_cooldown := Some (Num 0)\<rparr>)]"

definition parse_ok :: "string \<Rightarrow> exn + string" where
  "parse_ok src = Inr src"

definition invoke_mixed :: "string \<Rightarrow> exn + unit script_result" where
  "invoke_mixed fn = Inr (Array mixed_batch)"

subsection \<open>Effects that take hp away\<close>

text \<open>An effect whose damage amount or dps is not negative, and a record whose dps is not negative.\<close>

fun nonneg_effect :: "effect \<Rightarrow> bool" where
  "nonneg_effect (Damage amount k) = (0 \<le> amount)"
| "nonneg_effect (Dot dps duration k) = (0 \<le> dps)"
| "nonneg_effect e = True"

definition nonneg_dots :: "'c fighter \<Rightarrow> bool" where
  "nonneg_dots f = list_all (\<lambda>d. 0 \<le> dot_dps d) (dots (fstate f))"

text \<open>An ability with a negative damage amount, as a script may write it.\<close>

definition mend :: "'c ability" where
  "mend = \<lparr>name = ''Mend'', atype = AStatus, cooldown = 2, arange = 20,
           effects = [Damage (- 12) Physical], onCast = None\<rparr>"

subsection \<open>Example data\<close>

text \<open>The default values of the stats form (the \<^verbatim>\<open>fields\<close> table of \<^verbatim>\<open>StatsEditor\<close>).\<close>

definition default_stats :: stats where
  "default_stats =
     \<lparr>stats_hp = 100, physicalStrength = 10, physicalResistance = 20, magicalPower = 10,
      magicalResistance = 20, moveSpeed = 120, attackSpeed = 1, canFly = False\<rparr>"

text \<open>What \<^verbatim>\<open>Arena.reset\<close> does to a fighter: a spawn position and full hp.\<close>

definition place :: "real \<Rightarrow> real \<Rightarrow> 'c fighter \<Rightarrow> 'c fighter" where
  "place px py f = f\<lparr>fstate := (fstate f)\<lparr>pos := \<lparr>vec_x = px, vec_y = py\<rparr>, hp := stats_hp (base_stats f)\<rparr>\<rparr>"

section \<open>Verified properties\<close>

subsection \<open>Helper facts\<close>

lemma frac_strict: "0 < (a::real) \<Longrightarrow> 0 \<le> r \<Longrightarrow> r < r' \<Longrightarrow> a * 100 / (100 + r') < a * 100 / (100 + r)"
  by (simp add: frac_less2)

lemma frac_mono: "0 < (a::real) \<Longrightarrow> 0 \<le> r \<Longrightarrow> r \<le> r' \<Longrightarrow> a * 100 / (100 + r') \<le> a * 100 / (100 + r)"
  by (simp add: frac_le)

lemma hypot_axis: "hypot a 0 = \<bar>a\<bar>" "hypot 0 a = \<bar>a\<bar>"
  by (simp_all add: hypot_def)

lemma vec_eta: "\<lparr>vec_x = vec_x (v::vec), vec_y = vec_y v\<rparr> = v"
  by simp

lemma immunity_set_of: "immunity_of (immunity_set im k v) k = v"
  by (cases k) (simp_all add: immunity_of_def immunity_set_def)

lemma immunity_set_same: "immunity_set im k (immunity_of im k) = im"
  by (cases k) (simp_all add: immunity_of_def immunity_set_def)

lemma immunity_set_twice: "immunity_set (immunity_set im k v) k v' = immunity_set im k v'"
  by (cases k) (simp_all add: immunity_set_def)

subsection \<open>Facts about rounding\<close>

lemma pow2_pos: "0 < pow2 e"
  by (simp add: pow2_def)

lemma pow2_add: "pow2 (a + b) = pow2 a * pow2 b"
  by (simp add: pow2_def powr_add)

lemma pow2_mono: "a \<le> b \<Longrightarrow> pow2 a \<le> pow2 b"
  by (simp add: pow2_def)

lemma pow2_nat: "0 \<le> e \<Longrightarrow> pow2 e = 2 ^ nat e"
  by (simp add: pow2_def powr_real_of_int)


lemma pow2_diff: "pow2 (a - b) = pow2 a / pow2 b"
  by (simp add: pow2_def powr_diff)

lemma round_even_err: "\<bar>of_int (round_even v) - v\<bar> \<le> 1/2"
  unfolding round_even_def by (auto simp: abs_if) linarith+

lemma round_even_int: "round_even (of_int n) = n"
  by (simp add: round_even_def)

lemma round_even_le: "v \<le> of_int N \<Longrightarrow> round_even v \<le> N"
proof -
  assume a: "v \<le> of_int N"
  have f: "\<lfloor>v\<rfloor> \<le> N" using a by (simp add: floor_le_iff) 
  show ?thesis
  proof (cases "v = of_int N")
    case True
    then show ?thesis by (simp add: round_even_int)
  next
    case False
    with a have "v < of_int N" by simp
    then have "\<lfloor>v\<rfloor> < N" by (simp add: floor_less_iff)
    then show ?thesis by (simp add: round_even_def)
  qed
qed

lemma round_even_ge: "of_int N \<le> v \<Longrightarrow> N \<le> round_even v"
proof -
  assume "of_int N \<le> v"
  then have "N \<le> \<lfloor>v\<rfloor>" by (simp add: le_floor_iff)
  then show ?thesis by (simp add: round_even_def)
qed

lemma round_even_minus: "round_even (- v) = - round_even v"
proof (cases "v = of_int \<lfloor>v\<rfloor>")
  case True
  then obtain n :: int where "v = of_int n" by metis
  then have "- v = of_int (- n)" by simp
  then show ?thesis using \<open>v = of_int n\<close> by (metis round_even_int)
next
  case False
  have fl: "of_int \<lfloor>v\<rfloor> < v" using False by (metis of_int_floor_le order_le_less)
  have up: "v < of_int \<lfloor>v\<rfloor> + 1" by linarith
  have fm: "\<lfloor>- v\<rfloor> = - \<lfloor>v\<rfloor> - 1"
    using fl up by linarith
  show ?thesis
    unfolding round_even_def fm using fl up by (auto simp: field_simps)
qed

lemma ulp_exp_minus: "ulp_exp (- v) = ulp_exp v"
  by (simp add: ulp_exp_def)

lemma ulp_exp_abs: "ulp_exp \<bar>v\<bar> = ulp_exp v"
  by (simp add: ulp_exp_def)

lemma ulp_exp_ge: "- 1074 \<le> ulp_exp v"
  by (simp add: ulp_exp_def)

lemma ulp_exp_mono: "0 < \<bar>u\<bar> \<Longrightarrow> \<bar>u\<bar> \<le> \<bar>v\<bar> \<Longrightarrow> ulp_exp u \<le> ulp_exp v"
proof -
  assume a: "0 < \<bar>u\<bar>" "\<bar>u\<bar> \<le> \<bar>v\<bar>"
  then have "log 2 \<bar>u\<bar> \<le> log 2 \<bar>v\<bar>" by simp
  then have "\<lfloor>log 2 \<bar>u\<bar>\<rfloor> \<le> \<lfloor>log 2 \<bar>v\<bar>\<rfloor>" by (rule floor_mono)
  then show ?thesis by (simp add: ulp_exp_def)
qed

lemma fl_zero: "fl 0 = 0"
  by (simp add: fl_def)

lemma fl_minus: "fl (- v) = - fl v"
  by (simp add: fl_def ulp_exp_minus round_even_minus)

lemma fl_nonneg: "0 \<le> v \<Longrightarrow> 0 \<le> fl v"
proof -
  assume "0 \<le> v"
  then have "of_int 0 \<le> v / pow2 (ulp_exp v)" using pow2_pos [of "ulp_exp v"] by simp
  then have "0 \<le> round_even (v / pow2 (ulp_exp v))" by (rule round_even_ge)
  then show ?thesis using pow2_pos [of "ulp_exp v"] by (simp add: fl_def)
qed

lemma fl_nonpos: "v \<le> 0 \<Longrightarrow> fl v \<le> 0"
  using fl_nonneg [of "- v"] by (simp add: fl_minus)



lemma fl_fixed_significand:
  assumes "fl v = v" and "v \<noteq> 0"
  shows "v / pow2 (ulp_exp v) = of_int (round_even (v / pow2 (ulp_exp v)))"
proof -
  have "v = of_int (round_even (v / pow2 (ulp_exp v))) * pow2 (ulp_exp v)"
    using assms by (simp add: fl_def)
  then have "v / pow2 (ulp_exp v)
      = of_int (round_even (v / pow2 (ulp_exp v))) * pow2 (ulp_exp v) / pow2 (ulp_exp v)"
    by simp
  then show ?thesis using pow2_pos [of "ulp_exp v"] by simp
qed

text \<open>rounding does not pass a double above\<close>
lemma fl_le_double:
  assumes y: "0 < u" "u \<le> v" and v: "fl v = v"
  shows "fl u \<le> v"
proof -
  let ?eu = "ulp_exp u" and ?ev = "ulp_exp v"
  have vpos: "0 < v" using y by simp
  have e: "?eu \<le> ?ev" using y by (intro ulp_exp_mono) simp_all
  obtain n :: int where n: "v / pow2 ?ev = of_int n"
    using fl_fixed_significand [OF v] vpos by blast
  have "v / pow2 ?eu = (v / pow2 ?ev) * (pow2 ?ev / pow2 ?eu)"
    using pow2_pos [of ?ev] by simp
  also have "pow2 ?ev / pow2 ?eu = 2 ^ nat (?ev - ?eu)"
    using e by (simp add: pow2_diff [symmetric] pow2_nat)
  finally have N: "v / pow2 ?eu = of_int (n * 2 ^ nat (?ev - ?eu))"
    using n by simp
  have "u / pow2 ?eu \<le> v / pow2 ?eu"
    using y pow2_pos [of ?eu] by (simp add: divide_right_mono)
  then have "round_even (u / pow2 ?eu) \<le> n * 2 ^ nat (?ev - ?eu)"
    unfolding N by (rule round_even_le)
  then have "of_int (round_even (u / pow2 ?eu)) * pow2 ?eu \<le> of_int (n * 2 ^ nat (?ev - ?eu)) * pow2 ?eu"
    using pow2_pos [of ?eu] by (simp only: mult_right_mono of_int_le_iff less_imp_le)
  also have "\<dots> = v"
    using N pow2_pos [of ?eu] by (simp add: field_simps)
  finally show ?thesis using y by (simp add: fl_def)
qed

lemma fl_abs_le_double:
  assumes v: "fl v = v" and le: "\<bar>u\<bar> \<le> \<bar>v\<bar>"
  shows "\<bar>fl u\<bar> \<le> \<bar>v\<bar>"
proof -
  have av: "fl \<bar>v\<bar> = \<bar>v\<bar>" using v by (simp add: abs_if fl_minus)
  have pos: "0 < w \<Longrightarrow> w \<le> \<bar>v\<bar> \<Longrightarrow> \<bar>fl w\<bar> \<le> \<bar>v\<bar>" for w
    using fl_le_double [OF _ _ av, of w] fl_nonneg [of w] by simp
  consider "u = 0" | "0 < u" | "u < 0" by linarith
  then show ?thesis
  proof cases
    case 1
    then show ?thesis by (simp add: fl_zero)
  next
    case 2
    with le pos [of u] show ?thesis by simp
  next
    case 3
    with le pos [of "- u"] show ?thesis by (simp add: fl_minus)
  qed
qed


lemma pow2_ulp_le: "v \<noteq> 0 \<Longrightarrow> pow2 (ulp_exp v) \<le> max (\<bar>v\<bar> / 2 ^ 52) (pow2 (- 1074))"
proof -
  assume nz: "v \<noteq> 0"
  have "2 powr (of_int \<lfloor>log 2 \<bar>v\<bar>\<rfloor>) \<le> 2 powr (log 2 \<bar>v\<bar>)"
    by simp
  also have "\<dots> = \<bar>v\<bar>" using nz by simp
  finally have "pow2 \<lfloor>log 2 \<bar>v\<bar>\<rfloor> \<le> \<bar>v\<bar>" by (simp add: pow2_def)
  then have "pow2 (\<lfloor>log 2 \<bar>v\<bar>\<rfloor> - 52) \<le> \<bar>v\<bar> / 2 ^ 52"
    using pow2_diff [of "\<lfloor>log 2 \<bar>v\<bar>\<rfloor>" 52] pow2_nat [of 52] by (simp add: divide_right_mono)
  then have a: "pow2 (\<lfloor>log 2 \<bar>v\<bar>\<rfloor> - 52) \<le> max (\<bar>v\<bar> / 2 ^ 52) (pow2 (- 1074))"
    by simp
  have b: "pow2 (- 1074) \<le> max (\<bar>v\<bar> / 2 ^ 52) (pow2 (- 1074))"
    by simp
  show ?thesis
  proof (cases "\<lfloor>log 2 \<bar>v\<bar>\<rfloor> - 52 \<le> - 1074")
    case True
    then have "ulp_exp v = - 1074" by (simp add: ulp_exp_def)
    then show ?thesis using b by simp
  next
    case False
    then have "ulp_exp v = \<lfloor>log 2 \<bar>v\<bar>\<rfloor> - 52" by (simp add: ulp_exp_def)
    then show ?thesis using a by simp
  qed
qed

lemma fl_grid: "\<exists>n :: int. fl v = of_int n * pow2 (- 1074)"
proof (cases "v = 0")
  case True
  then have "fl v = of_int 0 * pow2 (- 1074)" by (simp add: fl_def)
  then show ?thesis by blast
next
  case False
  let ?e = "ulp_exp v"
  have "pow2 ?e = pow2 (?e + 1074) * pow2 (- 1074)"
    using pow2_add [of "?e + 1074" "- 1074"] by simp
  also have "pow2 (?e + 1074) = 2 ^ nat (?e + 1074)"
    using ulp_exp_ge [of v] by (simp add: pow2_nat)
  finally have "fl v = of_int (round_even (v / pow2 ?e) * 2 ^ nat (?e + 1074)) * pow2 (- 1074)"
    using False by (simp add: fl_def)
  then show ?thesis by blast
qed

lemma fl_tiny: "\<bar>fl v\<bar> < pow2 (- 1074) \<Longrightarrow> fl v = 0"
proof -
  assume a: "\<bar>fl v\<bar> < pow2 (- 1074)"
  obtain n :: int where n: "fl v = of_int n * pow2 (- 1074)" using fl_grid by blast
  have "\<bar>of_int n\<bar> * pow2 (- 1074) < 1 * pow2 (- 1074)"
    using a n pow2_pos [of "- 1074"] by (simp add: abs_mult)
  then have "\<bar>real_of_int n\<bar> < 1" using pow2_pos [of "- 1074"] by (simp only: mult_less_cancel_right_pos)
  then have "n = 0" by linarith
  then show ?thesis using n by simp
qed

lemma round_even_near: "\<bar>v - of_int n\<bar> < 1/2 \<Longrightarrow> round_even v = n"
proof -
  assume a: "\<bar>v - of_int n\<bar> < 1/2"
  have lo: "n \<le> round_even (v + 1/2)" if "of_int n \<le> v + 1/2" for v n
    using that by (rule round_even_ge)
  have e: "\<bar>of_int (round_even v) - v\<bar> \<le> 1/2" by (rule round_even_err)
  have "\<bar>real_of_int (round_even v) - of_int n\<bar> < 1" using a e by linarith
  then have "\<bar>real_of_int (round_even v - n)\<bar> < 1" by simp
  then have "round_even v - n = 0" by linarith
  then show ?thesis by simp
qed

lemma ulp_exp_small: "v \<noteq> 0 \<Longrightarrow> \<bar>v\<bar> < pow2 (- 1022) \<Longrightarrow> ulp_exp v = - 1074"
proof -
  assume False: "v \<noteq> 0"
  assume a: "\<bar>v\<bar> < pow2 (- 1022)"
  have "log 2 \<bar>v\<bar> < log 2 (pow2 (- 1022))"
    using a False by simp
  then have "log 2 \<bar>v\<bar> < of_int (- 1022)" by (simp add: pow2_def)
  then have "\<lfloor>log 2 \<bar>v\<bar>\<rfloor> < - 1022" by (simp add: floor_less_iff)
  then show ?thesis unfolding ulp_exp_def by linarith
qed


text \<open>a value below half the smallest subnormal rounds to zero\<close>
lemma fl_underflow: "\<bar>v\<bar> < pow2 (- 1075) \<Longrightarrow> fl v = 0"
proof (cases "v = 0")
  case True
  then show ?thesis by (simp add: fl_def)
next
  case False
  assume a: "\<bar>v\<bar> < pow2 (- 1075)"
  have "pow2 (- 1075) \<le> pow2 (- 1022)" by (rule pow2_mono) simp
  then have e: "ulp_exp v = - 1074" using a False by (intro ulp_exp_small) simp_all
  have h: "pow2 (- 1075) = pow2 (- 1074) / 2"
    using pow2_diff [of "- 1074" 1] pow2_nat [of 1] by simp
  have "\<bar>v / pow2 (- 1074)\<bar> < 1/2"
    using a h pow2_pos [of "- 1074"] by (simp add: field_simps abs_if split: if_splits)
  then have "round_even (v / pow2 (- 1074)) = 0"
    using round_even_near [of "v / pow2 (- 1074)" 0] by simp
  then show ?thesis using False e by (simp add: fl_def)
qed




subsection \<open>Damage mitigation\<close>

text \<open>
  C1, as the claim states it, fails: a Damage effect of amount 0 (the default of
  \<^verbatim>\<open>Effects.damage\<close>) is mitigated to 0 at every resistance, so the mitigated amount is
  not strictly decreasing in the resistance.
\<close>

theorem damage_zero_amount_not_strictly_decreasing:
  "\<not> (mitigated 0 Physical (default_stats\<lparr>physicalResistance := 100\<rparr>)
       < mitigated 0 Physical (default_stats\<lparr>physicalResistance := 0\<rparr>))"
  by (simp add: mitigated_def num_or_def)

text \<open>
  C1 (amended): a Damage effect applied to a target that is not immune to its kind and
  whose resistances are not negative lowers the target's hp by exactly
  amount * 100 / (100 + resistance) for the kinds physical and magical, and by the sum
  of the two halves, each mitigated by its own resistance, for the kind both. For a
  positive amount the mitigated amount is strictly decreasing in the resistance (for
  both: in either resistance, the other one not decreasing), and it equals the raw
  amount when the resistance is 0.
\<close>

theorem damage_mitigation:
  "(\<not> isImmune target k \<and> 0 \<le> physicalResistance (base_stats target) \<and> 0 \<le> magicalResistance (base_stats target)
     \<longrightarrow> hp (fstate (applyEffects [Damage a k] caster target)) =
         hp (fstate target) -
           (case k of
              Physical \<Rightarrow> a * 100 / (100 + physicalResistance (base_stats target))
            | Magical \<Rightarrow> a * 100 / (100 + magicalResistance (base_stats target))
            | Both \<Rightarrow> (a / 2) * 100 / (100 + physicalResistance (base_stats target))
                     + (a / 2) * 100 / (100 + magicalResistance (base_stats target))))
   \<and> (0 < a \<and> 0 \<le> physicalResistance st \<and> 0 \<le> magicalResistance st
        \<and> physicalResistance st \<le> physicalResistance st' \<and> magicalResistance st \<le> magicalResistance st'
        \<and> (k = Physical \<longrightarrow> physicalResistance st < physicalResistance st')
        \<and> (k = Magical \<longrightarrow> magicalResistance st < magicalResistance st')
        \<and> (k = Both \<longrightarrow> physicalResistance st < physicalResistance st' \<or> magicalResistance st < magicalResistance st')
      \<longrightarrow> mitigated a k st' < mitigated a k st)
   \<and> ((k \<noteq> Magical \<longrightarrow> physicalResistance st = 0) \<and> (k \<noteq> Physical \<longrightarrow> magicalResistance st = 0)
      \<longrightarrow> mitigated a k st = a)"
proof (intro conjI impI)
  assume "\<not> isImmune target k \<and> 0 \<le> physicalResistance (base_stats target) \<and> 0 \<le> magicalResistance (base_stats target)"
  then show "hp (fstate (applyEffects [Damage a k] caster target)) =
         hp (fstate target) -
           (case k of
              Physical \<Rightarrow> a * 100 / (100 + physicalResistance (base_stats target))
            | Magical \<Rightarrow> a * 100 / (100 + magicalResistance (base_stats target))
            | Both \<Rightarrow> (a / 2) * 100 / (100 + physicalResistance (base_stats target))
                     + (a / 2) * 100 / (100 + magicalResistance (base_stats target)))"
    by (cases k) (simp_all add: mitigated_def num_or_def)
next
  assume h: "0 < a \<and> 0 \<le> physicalResistance st \<and> 0 \<le> magicalResistance st
        \<and> physicalResistance st \<le> physicalResistance st' \<and> magicalResistance st \<le> magicalResistance st'
        \<and> (k = Physical \<longrightarrow> physicalResistance st < physicalResistance st')
        \<and> (k = Magical \<longrightarrow> magicalResistance st < magicalResistance st')
        \<and> (k = Both \<longrightarrow> physicalResistance st < physicalResistance st' \<or> magicalResistance st < magicalResistance st')"
  show "mitigated a k st' < mitigated a k st"
  proof (cases k)
    case Physical
    with h frac_strict [of a "physicalResistance st" "physicalResistance st'"] show ?thesis
      by (simp add: mitigated_def num_or_def)
  next
    case Magical
    with h frac_strict [of a "magicalResistance st" "magicalResistance st'"] show ?thesis
      by (simp add: mitigated_def num_or_def)
  next
    case Both
    from h have a2: "0 < a / 2" by simp
    from h Both consider "physicalResistance st < physicalResistance st'" | "magicalResistance st < magicalResistance st'"
      by blast
    then show ?thesis
    proof cases
      case 1
      with h a2 frac_strict [of "a / 2" "physicalResistance st" "physicalResistance st'"]
        frac_mono [of "a / 2" "magicalResistance st" "magicalResistance st'"] Both
      show ?thesis by (simp add: mitigated_def num_or_def)
    next
      case 2
      with h a2 frac_strict [of "a / 2" "magicalResistance st" "magicalResistance st'"]
        frac_mono [of "a / 2" "physicalResistance st" "physicalResistance st'"] Both
      show ?thesis by (simp add: mitigated_def num_or_def)
    qed
  qed
next
  assume "(k \<noteq> Magical \<longrightarrow> physicalResistance st = 0) \<and> (k \<noteq> Physical \<longrightarrow> magicalResistance st = 0)"
  then show "mitigated a k st = a"
    by (cases k) (simp_all add: mitigated_def num_or_def)
qed

text \<open>
  The theorem at the end-to-end example of the spec (14 physical damage against
  resistance 20 and hp 100), at the asymmetric split of the spec (20 damage of kind both
  against physical resistance 0 and magical resistance 100 takes 15 hp), at the
  resistances 20 and 40, and at resistance 0.
\<close>

theorem damage_mitigation_witness:
  "\<not> isImmune (makeFighter ''B'' default_stats ([] :: unit ability list)) Physical
   \<and> hp (fstate (applyEffects [Damage 14 Physical] (makeFighter ''A'' default_stats [])
           (makeFighter ''B'' default_stats ([] :: unit ability list)))) = 100 - 14 * 100 / 120
   \<and> hp (fstate (applyEffects [Damage 20 Both] (makeFighter ''A'' default_stats [])
           (makeFighter ''B'' (default_stats\<lparr>physicalResistance := 0, magicalResistance := 100\<rparr>)
              ([] :: unit ability list)))) = 100 - 15
   \<and> mitigated 14 Physical (default_stats\<lparr>physicalResistance := 40\<rparr>) < mitigated 14 Physical default_stats
   \<and> mitigated 20 Both (default_stats\<lparr>physicalResistance := 0, magicalResistance := 0\<rparr>) = 20"
proof -
  let ?A = "makeFighter ''A'' default_stats ([] :: unit ability list)"
  let ?B = "makeFighter ''B'' default_stats ([] :: unit ability list)"
  let ?C = "makeFighter ''B'' (default_stats\<lparr>physicalResistance := 0, magicalResistance := 100\<rparr>)
              ([] :: unit ability list)"
  have ni: "\<not> isImmune ?B Physical"
    by (simp add: isImmune_def makeFighter_def immunity_of_def)
  have r: "0 \<le> physicalResistance (base_stats ?B) \<and> 0 \<le> magicalResistance (base_stats ?B)"
    by (simp add: makeFighter_def default_stats_def)
  have nc: "\<not> isImmune ?C Both \<and> 0 \<le> physicalResistance (base_stats ?C) \<and> 0 \<le> magicalResistance (base_stats ?C)"
    by (simp add: isImmune_def makeFighter_def default_stats_def)
  have 1: "hp (fstate (applyEffects [Damage 14 Physical] ?A ?B)) = 100 - 14 * 100 / 120"
    using damage_mitigation [where target = ?B and k = Physical and caster = ?A and a = 14
        and st = default_stats and st' = default_stats, THEN conjunct1] ni r
    by (simp add: makeFighter_def default_stats_def)
  have 2: "mitigated 14 Physical (default_stats\<lparr>physicalResistance := 40\<rparr>) < mitigated 14 Physical default_stats"
    using damage_mitigation [where target = ?B and caster = ?A and k = Physical and a = 14
        and st = default_stats and st' = "default_stats\<lparr>physicalResistance := 40\<rparr>", THEN conjunct2, THEN conjunct1]
    by (simp add: default_stats_def)
  have 3: "mitigated 20 Both (default_stats\<lparr>physicalResistance := 0, magicalResistance := 0\<rparr>) = 20"
    using damage_mitigation [where target = ?B and caster = ?A and k = Both and a = 20
        and st = "default_stats\<lparr>physicalResistance := 0, magicalResistance := 0\<rparr>"
        and st' = default_stats, THEN conjunct2, THEN conjunct2]
    by simp
  have 4: "hp (fstate (applyEffects [Damage 20 Both] ?A ?C)) = 100 - 15"
    using damage_mitigation [where target = ?C and k = Both and caster = ?A and a = 20
        and st = default_stats and st' = default_stats, THEN conjunct1] nc
    by (simp add: makeFighter_def default_stats_def)
  from ni 1 2 3 4 show ?thesis by blast
qed

subsection \<open>Immunity and freeze timers\<close>

text \<open>
  C6, as the claim states it, fails for a TimeFreeze of duration 0: the engine reads the
  duration as \<^verbatim>\<open>duration||1\<close>, so a freeze timer of 0.5 becomes 1 and not
  max(0.5, 0) = 0.5, although the duration is shorter than the current timer.
\<close>

theorem timeFreeze_zero_duration_sets_one:
  "freeze (fstate (applyEffects [TimeFreeze 0] (makeFighter ''A'' default_stats ([] :: unit ability list))
        (timeFreeze (makeFighter ''B'' default_stats []) (1/2))))
   \<noteq> max (freeze (fstate (timeFreeze (makeFighter ''B'' default_stats ([] :: unit ability list)) (1/2)))) 0"
  by (simp add: timeFreeze_def makeFighter_def num_or_def)

text \<open>
  C6 (amended): an Immunity effect sets the target's immunity timer of its kind to
  max(current, duration); a TimeFreeze effect and \<^verbatim>\<open>world.timeFreeze\<close> set the freeze timer
  to max(current, d), where d is the duration, or 1 when the duration is 0. The timers
  are never additive: applying the same immunity or freeze twice in a row gives the same
  fighter as applying it once, an immunity whose duration is not longer than the current
  timer leaves the fighter unchanged, and so does a freeze whose duration is not 0 and
  not longer than the current timer.
\<close>

theorem timers_set_by_max:
  "immunity_of (immun (fstate (applyEffects [Immunity k d] caster target))) k
      = max (immunity_of (immun (fstate target)) k) d
   \<and> freeze (fstate (applyEffects [TimeFreeze d] caster target))
      = max (freeze (fstate target)) (if d = 0 then 1 else d)
   \<and> freeze (fstate (timeFreeze target d))
      = max (freeze (fstate target)) (if d = 0 then 1 else d)
   \<and> applyEffects [Immunity k d, Immunity k d] caster target = applyEffects [Immunity k d] caster target
   \<and> applyEffects [TimeFreeze d, TimeFreeze d] caster target = applyEffects [TimeFreeze d] caster target
   \<and> timeFreeze (timeFreeze target d) d = timeFreeze target d
   \<and> (d \<le> immunity_of (immun (fstate target)) k \<longrightarrow> applyEffects [Immunity k d] caster target = target)
   \<and> (d \<noteq> 0 \<and> d \<le> freeze (fstate target) \<longrightarrow>
        applyEffects [TimeFreeze d] caster target = target \<and> timeFreeze target d = target)"
  by (simp add: timeFreeze_def num_or_def max_def immunity_set_of immunity_set_same immunity_set_twice)

text \<open>
  The theorem at a fighter that holds a physical immunity and a freeze of 2 seconds
  each, for an immunity and a freeze of 1.5 seconds.
\<close>

theorem timers_set_by_max_witness:
  "(3/2 :: real) \<le> immunity_of (immun (fstate (applyEffects [Immunity Physical 2, TimeFreeze 2]
        (makeFighter ''A'' default_stats ([] :: unit ability list)) (makeFighter ''B'' default_stats [])))) Physical
   \<and> (3/2 :: real) \<noteq> 0
   \<and> (3/2 :: real) \<le> freeze (fstate (applyEffects [Immunity Physical 2, TimeFreeze 2]
        (makeFighter ''A'' default_stats ([] :: unit ability list)) (makeFighter ''B'' default_stats [])))
   \<and> applyEffects [Immunity Physical (3/2)] (makeFighter ''A'' default_stats ([] :: unit ability list))
        (applyEffects [Immunity Physical 2, TimeFreeze 2] (makeFighter ''A'' default_stats []) (makeFighter ''B'' default_stats []))
      = applyEffects [Immunity Physical 2, TimeFreeze 2] (makeFighter ''A'' default_stats []) (makeFighter ''B'' default_stats [])
   \<and> applyEffects [TimeFreeze (3/2)] (makeFighter ''A'' default_stats ([] :: unit ability list))
        (applyEffects [Immunity Physical 2, TimeFreeze 2] (makeFighter ''A'' default_stats []) (makeFighter ''B'' default_stats []))
      = applyEffects [Immunity Physical 2, TimeFreeze 2] (makeFighter ''A'' default_stats []) (makeFighter ''B'' default_stats [])"
proof -
  let ?A = "makeFighter ''A'' default_stats ([] :: unit ability list)"
  let ?t = "applyEffects [Immunity Physical 2, TimeFreeze 2] ?A (makeFighter ''B'' default_stats [])"
  have h1: "(3/2 :: real) \<le> immunity_of (immun (fstate ?t)) Physical"
    by (simp add: makeFighter_def timeFreeze_def num_or_def immunity_of_def immunity_set_def)
  have h2: "(3/2 :: real) \<noteq> 0 \<and> (3/2 :: real) \<le> freeze (fstate ?t)"
    by (simp add: makeFighter_def timeFreeze_def num_or_def)
  from timers_set_by_max [where k = Physical and d = "3/2" and caster = ?A and target = ?t] h1 h2 show ?thesis
    by blast
qed

subsection \<open>Knockback\<close>

text \<open>
  C8, as the claim states it, fails for a Knockback of force 0: the engine reads the
  force as \<^verbatim>\<open>force||80\<close>, so the target's x-velocity grows by 40 and not by 0.
\<close>

theorem knockback_zero_force_pushes:
  "vec_x (vel (fstate (applyEffects [Knockback 0] (place 0 0 (makeFighter ''A'' default_stats ([] :: unit ability list)))
        (place 10 0 (makeFighter ''B'' default_stats [])))))
   \<noteq> vec_x (vel (fstate (place 10 0 (makeFighter ''B'' default_stats ([] :: unit ability list))))) + sgn (10 - 0) * 0 / 2"
  by (simp add: place_def makeFighter_def num_or_def)

text \<open>
  C8 (amended): a Knockback effect adds sign(target.x - caster.x) * f / 2 to the target's
  x-velocity and sign(target.y - caster.y) * f / 2 to its y-velocity, where f is the
  force, or 80 when the force is 0; the direction is the sign on each axis, not a
  normalised vector, and the push adds to the velocity the target already has.
\<close>

theorem knockback_adds_half_force_per_axis:
  "vel (fstate (applyEffects [Knockback force] caster target)) =
     \<lparr>vec_x = vec_x (vel (fstate target))
        + sgn (vec_x (pos (fstate target)) - vec_x (pos (fstate caster))) * (if force = 0 then 80 else force) / 2,
      vec_y = vec_y (vel (fstate target))
        + sgn (vec_y (pos (fstate target)) - vec_y (pos (fstate caster))) * (if force = 0 then 80 else force) / 2\<rparr>"
  by (simp add: num_or_def Let_def)

text \<open>
  The theorem at a diagonal push of force 100 on a target that already moves: both axes
  get the full 50.
\<close>

theorem knockback_adds_half_force_per_axis_witness:
  "vel (fstate (applyEffects [Knockback 100, Knockback 100]
      (place 0 0 (makeFighter ''A'' default_stats ([] :: unit ability list)))
      (place 10 (- 10) (makeFighter ''B'' default_stats []))))
   = \<lparr>vec_x = 100, vec_y = - 100\<rparr>"
proof -
  let ?A = "place 0 0 (makeFighter ''A'' default_stats ([] :: unit ability list))"
  let ?B = "place 10 (- 10) (makeFighter ''B'' default_stats ([] :: unit ability list))"
  have p: "pos (fstate (applyEffects [Knockback 100] ?A ?B)) = pos (fstate ?B)"
    by (simp add: Let_def)
  have 1: "vel (fstate (applyEffects [Knockback 100] ?A ?B)) = \<lparr>vec_x = 50, vec_y = - 50\<rparr>"
    using knockback_adds_half_force_per_axis [where force = 100 and caster = ?A and target = ?B]
    by (simp add: place_def makeFighter_def)
  have 2: "applyEffects [Knockback 100, Knockback 100] ?A ?B
           = applyEffects [Knockback 100] ?A (applyEffects [Knockback 100] ?A ?B)"
    by simp
  show ?thesis
    unfolding 2
    using knockback_adds_half_force_per_axis [where force = 100 and caster = ?A
        and target = "applyEffects [Knockback 100] ?A ?B"] 1 p
    by (simp add: place_def makeFighter_def)
qed

subsection \<open>Damage over time\<close>
















lemma hp_drops_step:
  "decay_fighter dt f = Some g \<Longrightarrow> hp_drops (dt # dts) f = (hp (fstate f) - hp (fstate g)) # hp_drops dts g"
  by simp



















subsection \<open>Ability compilation\<close>

lemma make_all_fails:
  "\<exists>s\<in>set ss. \<exists>e. Ability_make s = Inl e \<Longrightarrow> \<exists>e. make_all ss = Inl e"
proof (induction ss)
  case Nil
  then show ?case by simp
next
  case (Cons s ss)
  show ?case
  proof (cases "Ability_make s")
    case (Inl e)
    then show ?thesis by simp
  next
    case (Inr a)
    with Cons.prems have "\<exists>s\<in>set ss. \<exists>e. Ability_make s = Inl e" by auto
    from Cons.IH [OF this] Inr show ?thesis by auto
  qed
qed

text \<open>A script that returns valid ability objects is loaded, all of them, in order.\<close>

lemma compile_valid_batch:
  "compileAbilities parse_ok (\<lambda>fn. Inr (Array [Some (spec_of firebolt), Some (spec_of slash)])) ''return [...]''
   = (Loaded 2, Some [firebolt, slash :: unit ability])"
  by (simp add: compileAbilities_def parse_ok_def Ability_make_def spec_of_def slash_def firebolt_def atype_of_def)

text \<open>
  C7: when the compilation fails, structurally (the script text cannot be turned into a
  function) or behaviourally (the call throws, the value returned is not an array, or
  \<^verbatim>\<open>Ability.make\<close> throws on some element of the array), \<^verbatim>\<open>compileAbilities\<close> returns
  no ability list and the click handler keeps the set loaded before, whatever it was; a
  batch with one invalid ability among valid ones is rejected as a whole. The status
  line names the class of the failure.
\<close>

theorem compile_failure_retains_loaded_set:
  assumes "(\<exists>e. parse src = Inl e)
     \<or> (\<exists>fn. parse src = Inr fn
           \<and> ((\<exists>e. invoke fn = Inl e)
              \<or> invoke fn = Inr NotArray
              \<or> (\<exists>result. invoke fn = Inr (Array result) \<and> (\<exists>s\<in>set result. \<exists>e. Ability_make s = Inl e))))"
  shows "snd (compileAbilities parse invoke src) = None
         \<and> validate_click parse invoke src compiled = compiled
         \<and> ((\<exists>e. parse src = Inl e) \<longrightarrow> (\<exists>msg. fst (compileAbilities parse invoke src) = SyntaxError msg))
         \<and> ((\<exists>fn. parse src = Inr fn) \<longrightarrow> (\<exists>msg. fst (compileAbilities parse invoke src) = RuntimeError msg))"
proof -
  have n: "snd (compileAbilities parse invoke src) = None
     \<and> ((\<exists>e. parse src = Inl e) \<longrightarrow> (\<exists>msg. fst (compileAbilities parse invoke src) = SyntaxError msg))
     \<and> ((\<exists>fn. parse src = Inr fn) \<longrightarrow> (\<exists>msg. fst (compileAbilities parse invoke src) = RuntimeError msg))"
    using assms
  proof (elim disjE exE conjE)
    fix e assume "parse src = Inl e"
    then show ?thesis by (cases e) (simp add: compileAbilities_def)
  next
    fix fn e assume "parse src = Inr fn" "invoke fn = Inl e"
    then show ?thesis by (cases e) (simp add: compileAbilities_def)
  next
    fix fn assume "parse src = Inr fn" "invoke fn = Inr NotArray"
    then show ?thesis by (simp add: compileAbilities_def)
  next
    fix fn result assume p: "parse src = Inr fn" "invoke fn = Inr (Array result)"
      and "\<exists>s\<in>set result. \<exists>e. Ability_make s = Inl e"
    then obtain e where "make_all result = Inl e" using make_all_fails by blast
    with p show ?thesis by (cases e) (simp add: compileAbilities_def)
  qed
  then show ?thesis by (simp add: validate_click_def)
qed

text \<open>
  The theorem at a script that returns a valid ability followed by one with cooldown 0,
  while a set of one ability is loaded.
\<close>

theorem compile_failure_retains_loaded_set_witness:
  "snd (compileAbilities parse_ok invoke_mixed ''return [...]'') = None
   \<and> validate_click parse_ok invoke_mixed ''return [...]'' [slash] = [slash]"
proof -
  have "Ability_make (Some ((spec_of slash)\<lparr>spec_cooldown := Some (Num 0)\<rparr>) :: unit ability_spec option)
        = Inl (Thrown ''cooldown must be > 0'')"
    by (simp add: Ability_make_def spec_of_def slash_def atype_of_def)
  then have "\<exists>fn. parse_ok ''return [...]'' = Inr fn
           \<and> ((\<exists>e. invoke_mixed fn = Inl e)
              \<or> invoke_mixed fn = Inr NotArray
              \<or> (\<exists>result. invoke_mixed fn = Inr (Array result) \<and> (\<exists>s\<in>set result. \<exists>e. Ability_make s = Inl e)))"
    by (simp add: parse_ok_def invoke_mixed_def mixed_batch_def)
  then have "(\<exists>e. parse_ok ''return [...]'' = Inl e)
     \<or> (\<exists>fn. parse_ok ''return [...]'' = Inr fn
           \<and> ((\<exists>e. invoke_mixed fn = Inl e)
              \<or> invoke_mixed fn = Inr NotArray
              \<or> (\<exists>result. invoke_mixed fn = Inr (Array result) \<and> (\<exists>s\<in>set result. \<exists>e. Ability_make s = Inl e))))"
    by (rule disjI2)
  from compile_failure_retains_loaded_set [where parse = parse_ok and invoke = invoke_mixed and src = "''return [...]''"
      and compiled = "[slash]", OF this]
  show ?thesis by simp
qed

subsection \<open>Projectiles\<close>

lemma collide_no_hit:
  "\<forall>j\<in>set js. \<not> dist_vec (p_pos (projectiles w ! i)) (pos (fstate (fighters w ! j))) < 18
   \<Longrightarrow> collide hit i js w = Inr w"
  by (induction js) (simp_all add: Let_def)

lemma set_projectile_same: "i < length (projectiles w) \<Longrightarrow> projectiles (set_projectile i q w) ! i = q"
  "fighters (set_projectile i q w) = fighters w"
  by (simp_all add: set_projectile_def)

text \<open>
  C10: the divisor that normalises the direction in \<^verbatim>\<open>spawnProjectile\<close> is never 0 (a
  zero length is replaced by 1), and the projectile is appended to the world's list.
  When from and to coincide the divisor is 1 and the projectile starts at from with
  velocity (0, 0). A live projectile of velocity (0, 0) never moves: a step of the
  projectile pass either marks it dead because its ttl is used up, without a callback,
  or runs the collision test at the unchanged position; when no fighter is within 18 of
  that position only the ttl has changed.
\<close>

theorem spawn_direction_total:
  "spawn_L p \<noteq> 0
   \<and> projectiles (spawnProjectile p w) = projectiles w @ [spawned p]
   \<and> (sp_from p = sp_to p \<longrightarrow>
        spawn_L p = 1
        \<and> spawned p = \<lparr>p_pos = sp_from p, p_vel = \<lparr>vec_x = 0, vec_y = 0\<rparr>,
                        ttl = num_or (sp_maxTime p) 2, onHit = sp_onHit p, alive = True\<rparr>)
   \<and> (i < length (projectiles w) \<and> alive (projectiles w ! i)
        \<and> p_vel (projectiles w ! i) = \<lparr>vec_x = 0, vec_y = 0\<rparr> \<longrightarrow>
        (ttl (projectiles w ! i) - dt \<le> 0 \<longrightarrow>
           proj_step hit dt i w =
             Inr (set_projectile i ((projectiles w ! i)\<lparr>ttl := ttl (projectiles w ! i) - dt, alive := False\<rparr>) w))
        \<and> (0 < ttl (projectiles w ! i) - dt \<longrightarrow>
             proj_step hit dt i w =
               collide hit i [0..<length (fighters w)]
                 (set_projectile i ((projectiles w ! i)\<lparr>ttl := ttl (projectiles w ! i) - dt\<rparr>) w))
        \<and> (0 < ttl (projectiles w ! i) - dt
             \<and> (\<forall>j<length (fighters w). 18 \<le> dist_vec (p_pos (projectiles w ! i)) (pos (fstate (fighters w ! j)))) \<longrightarrow>
             proj_step hit dt i w =
               Inr (set_projectile i ((projectiles w ! i)\<lparr>ttl := ttl (projectiles w ! i) - dt\<rparr>) w)))"
proof (intro conjI impI)
  show "spawn_L p \<noteq> 0"
    by (simp add: spawn_L_def num_or_def)
  show "projectiles (spawnProjectile p w) = projectiles w @ [spawned p]"
    by (simp add: spawnProjectile_def)
next
  assume "sp_from p = sp_to p"
  then show "spawn_L p = 1"
    by (simp add: spawn_L_def num_or_def hypot_def)
next
  assume "sp_from p = sp_to p"
  then show "spawned p = \<lparr>p_pos = sp_from p, p_vel = \<lparr>vec_x = 0, vec_y = 0\<rparr>,
                        ttl = num_or (sp_maxTime p) 2, onHit = sp_onHit p, alive = True\<rparr>"
    by (simp add: spawned_def Let_def)
next
  let ?q = "projectiles w ! i"
  assume a: "i < length (projectiles w) \<and> alive ?q \<and> p_vel ?q = \<lparr>vec_x = 0, vec_y = 0\<rparr>"
  have stay: "?q\<lparr>ttl := ttl ?q - dt,
                 p_pos := \<lparr>vec_x = vec_x (p_pos ?q) + vec_x (p_vel ?q) * dt,
                           vec_y = vec_y (p_pos ?q) + vec_y (p_vel ?q) * dt\<rparr>\<rparr> = ?q\<lparr>ttl := ttl ?q - dt\<rparr>"
    using a by simp
  {
    assume "ttl ?q - dt \<le> 0"
    then show "proj_step hit dt i w = Inr (set_projectile i (?q\<lparr>ttl := ttl ?q - dt, alive := False\<rparr>) w)"
      using a by (simp add: proj_step_def Let_def)
  }
  {
    assume "0 < ttl ?q - dt"
    then show "proj_step hit dt i w =
               collide hit i [0..<length (fighters w)] (set_projectile i (?q\<lparr>ttl := ttl ?q - dt\<rparr>) w)"
      using a stay by (simp add: proj_step_def Let_def vec_eta)
  }
  {
    assume b: "0 < ttl ?q - dt
             \<and> (\<forall>j<length (fighters w). 18 \<le> dist_vec (p_pos ?q) (pos (fstate (fighters w ! j))))"
    let ?w = "set_projectile i (?q\<lparr>ttl := ttl ?q - dt\<rparr>) w"
    have "\<forall>j\<in>set [0..<length (fighters w)].
            \<not> dist_vec (p_pos (projectiles ?w ! i)) (pos (fstate (fighters ?w ! j))) < 18"
      using a b by (simp add: set_projectile_same not_less)
    then have "collide hit i [0..<length (fighters w)] ?w = Inr ?w"
      by (rule collide_no_hit)
    then show "proj_step hit dt i w = Inr ?w"
      using a b stay by (simp add: proj_step_def Let_def vec_eta)
  }
qed

text \<open>
  The theorem at a projectile spawned with from = to = (100, 100) and maxTime 2.5, the two
  fighters 200 and 400 away: a frame of 1/30 s only lowers the ttl, a step of 3 s lets
  the projectile expire.
\<close>

theorem spawn_direction_total_witness:
  "proj_step hit_applies (1/30) 0
     (spawnProjectile
        \<lparr>sp_speed = 260, sp_maxTime = 5/2, sp_from = \<lparr>vec_x = 100, vec_y = 100\<rparr>,
         sp_to = \<lparr>vec_x = 100, vec_y = 100\<rparr>, sp_onHit = Some ([Damage 10 Magical], 1)\<rparr>
        (duel (place 300 100 (makeFighter ''A'' default_stats ([] :: unit ability list)))
              (place 500 100 (makeFighter ''B'' default_stats []))))
   = Inr ((duel (place 300 100 (makeFighter ''A'' default_stats ([] :: unit ability list)))
              (place 500 100 (makeFighter ''B'' default_stats [])))
          \<lparr>projectiles := [\<lparr>p_pos = \<lparr>vec_x = 100, vec_y = 100\<rparr>, p_vel = \<lparr>vec_x = 0, vec_y = 0\<rparr>,
                             ttl = 5/2 - 1/30, onHit = Some ([Damage 10 Magical], 1), alive = True\<rparr>]\<rparr>)
   \<and> proj_step hit_applies 3 0
     (spawnProjectile
        \<lparr>sp_speed = 260, sp_maxTime = 5/2, sp_from = \<lparr>vec_x = 100, vec_y = 100\<rparr>,
         sp_to = \<lparr>vec_x = 100, vec_y = 100\<rparr>, sp_onHit = Some ([Damage 10 Magical], 1)\<rparr>
        (duel (place 300 100 (makeFighter ''A'' default_stats ([] :: unit ability list)))
              (place 500 100 (makeFighter ''B'' default_stats []))))
   = Inr ((duel (place 300 100 (makeFighter ''A'' default_stats ([] :: unit ability list)))
              (place 500 100 (makeFighter ''B'' default_stats [])))
          \<lparr>projectiles := [\<lparr>p_pos = \<lparr>vec_x = 100, vec_y = 100\<rparr>, p_vel = \<lparr>vec_x = 0, vec_y = 0\<rparr>,
                             ttl = 5/2 - 3, onHit = Some ([Damage 10 Magical], 1), alive = False\<rparr>]\<rparr>)"
proof -
  let ?p = "\<lparr>sp_speed = 260, sp_maxTime = 5/2, sp_from = \<lparr>vec_x = 100, vec_y = 100\<rparr>,
         sp_to = \<lparr>vec_x = 100, vec_y = 100\<rparr>, sp_onHit = Some ([Damage 10 Magical], 1 :: nat)\<rparr>"
  let ?d = "duel (place 300 100 (makeFighter ''A'' default_stats ([] :: unit ability list)))
              (place 500 100 (makeFighter ''B'' default_stats [])) :: (unit, effect list \<times> nat) world"
  let ?w = "spawnProjectile ?p ?d"
  have same: "sp_from ?p = sp_to ?p" by simp
  have q: "projectiles ?w ! 0 = spawned ?p" "length (projectiles ?w) = 1" "length (fighters ?w) = 2"
    by (simp_all add: spawnProjectile_def duel_def)
  have sp: "spawned ?p = \<lparr>p_pos = \<lparr>vec_x = 100, vec_y = 100\<rparr>, p_vel = \<lparr>vec_x = 0, vec_y = 0\<rparr>,
                        ttl = 5/2, onHit = Some ([Damage 10 Magical], 1), alive = True\<rparr>"
    using spawn_direction_total [where p = ?p and w = ?d and i = 0 and dt = "1/30" and hit = hit_applies] same
    by (simp add: num_or_def)
  have pre: "0 < length (projectiles ?w) \<and> alive (projectiles ?w ! 0)
             \<and> p_vel (projectiles ?w ! 0) = \<lparr>vec_x = 0, vec_y = 0\<rparr>"
    unfolding q sp by simp
  have far: "\<forall>j<length (fighters ?w). 18 \<le> dist_vec (p_pos (projectiles ?w ! 0)) (pos (fstate (fighters ?w ! j)))"
  proof (intro allI impI)
    fix j assume "j < length (fighters ?w)"
    then have "j = 0 \<or> j = 1" using q(3) by auto
    moreover have "18 \<le> dist_vec (p_pos (projectiles ?w ! 0)) (pos (fstate (fighters ?w ! 0)))"
      unfolding q sp by (simp add: spawnProjectile_def duel_def place_def makeFighter_def dist_vec_def hypot_axis)
    moreover have "18 \<le> dist_vec (p_pos (projectiles ?w ! 0)) (pos (fstate (fighters ?w ! 1)))"
      unfolding q sp by (simp add: spawnProjectile_def duel_def place_def makeFighter_def dist_vec_def hypot_axis)
    ultimately show "18 \<le> dist_vec (p_pos (projectiles ?w ! 0)) (pos (fstate (fighters ?w ! j)))"
      by blast
  qed
  have live: "0 < ttl (projectiles ?w ! 0) - 1/30" and dead: "ttl (projectiles ?w ! 0) - 3 \<le> 0"
    unfolding q sp by simp_all
  have 1: "proj_step hit_applies (1/30) 0 ?w
           = Inr (set_projectile 0 ((projectiles ?w ! 0)\<lparr>ttl := ttl (projectiles ?w ! 0) - 1/30\<rparr>) ?w)"
    using spawn_direction_total [where p = ?p and w = ?w and i = 0 and dt = "1/30" and hit = hit_applies] pre far live
    by blast
  have 2: "proj_step hit_applies 3 0 ?w
           = Inr (set_projectile 0 ((projectiles ?w ! 0)\<lparr>ttl := ttl (projectiles ?w ! 0) - 3, alive := False\<rparr>) ?w)"
    using spawn_direction_total [where p = ?p and w = ?w and i = 0 and dt = 3 and hit = hit_applies] pre dead
    by blast
  show ?thesis
    unfolding 1 2 q(1) sp by (simp add: set_projectile_def spawnProjectile_def duel_def)
qed


text \<open>
  C4: the code does not keep the claim. Fighter B, 10 away from fighter A, spawns a
  projectile at its own position towards A. In the next projectile pass the projectile
  is within 18 of both fighters; the collision loop marks it dead at the first fighter
  and, having no \<^verbatim>\<open>break\<close>, goes on to the second, so the \<^verbatim>\<open>onHit\<close> of the template is
  invoked twice and both fighters lose 10 * 100 / 120 hp. The dead projectile is removed
  at the end of the pass.
\<close>

theorem projectile_hits_both_fighters:
  "proj_pass hit_applies (1/30)
     (spawnProjectile
        \<lparr>sp_speed = 260, sp_maxTime = 5/2, sp_from = \<lparr>vec_x = 110, vec_y = 100\<rparr>,
         sp_to = \<lparr>vec_x = 100, vec_y = 100\<rparr>, sp_onHit = Some ([Damage 10 Magical], 1)\<rparr>
        (duel (place 100 100 (makeFighter ''A'' default_stats ([] :: unit ability list)))
              (place 110 100 (makeFighter ''B'' default_stats []))))
   = Some (Inr (duel
        ((place 100 100 (makeFighter ''A'' default_stats []))
           \<lparr>fstate := (fstate (place 100 100 (makeFighter ''A'' default_stats [])))\<lparr>hp := 100 - 10 * 100 / 120\<rparr>\<rparr>)
        ((place 110 100 (makeFighter ''B'' default_stats []))
           \<lparr>fstate := (fstate (place 110 100 (makeFighter ''B'' default_stats [])))\<lparr>hp := 100 - 10 * 100 / 120\<rparr>\<rparr>)))"
  by (simp add: proj_pass_def proj_loop.simps proj_step_def spawnProjectile_def spawned_def spawn_L_def
      duel_def place_def makeFighter_def default_stats_def hit_applies_def invoke_onHit_def
      world_applyEffects_def set_fighter_def set_projectile_def dist_vec_def hypot_axis num_or_def
      isImmune_def immunity_of_def mitigated_def cleanup_def Let_def)


end
